theory Spec2Isabelle
  imports Main
begin

section \<open>Column types and rows\<close>

text \<open>
  The store is the relational schema of the three migrations
  (user profiles, products, orders and reviews), with its row-level security. A row is a record with one field per
  column, in the order of the \<^verbatim>\<open>CREATE TABLE\<close>. A column declared \<^verbatim>\<open>NOT NULL\<close>
  (or \<^verbatim>\<open>PRIMARY KEY\<close>) has the plain type, a nullable column has an \<open>option\<close> type with
  \<open>None\<close> for SQL's NULL. A \<^verbatim>\<open>uuid\<close> is an opaque identifier, a
  \<^verbatim>\<open>decimal(10, 2)\<close> is the number of hundredths it holds, an \<^verbatim>\<open>integer\<close> is its
  value; the ranges of both are checked when a row is written (\<open>numeric_10_2_ok\<close>,
  \<open>int4_ok\<close>).
\<close>

type_synonym uuid = nat
type_synonym sql_text = string
type_synonym timestamptz = nat
type_synonym jsonb = string
type_synonym decimal_10_2 = int

definition numeric_10_2_ok :: "decimal_10_2 \<Rightarrow> bool" where
  "numeric_10_2_ok c \<longleftrightarrow> \<bar>c\<bar> < 10 ^ 10"

definition int4_ok :: "int \<Rightarrow> bool" where
  "int4_ok n \<longleftrightarrow> - (2 ^ 31) \<le> n \<and> n < 2 ^ 31"

fun int4_opt_ok :: "int option \<Rightarrow> bool" where
  "int4_opt_ok None = True"
| "int4_opt_ok (Some n) = int4_ok n"

record user_profiles_row =
  up_id :: uuid
  up_role :: sql_text
  up_full_name :: sql_text
  up_phone :: "sql_text option"
  up_language_preference :: "sql_text option"
  up_state :: "sql_text option"
  up_district :: "sql_text option"
  up_profile_image_url :: "sql_text option"
  up_is_active :: "bool option"
  up_created_at :: "timestamptz option"
  up_updated_at :: "timestamptz option"

record product_categories_row =
  pc_id :: uuid
  pc_name_en :: sql_text
  pc_name_hi :: sql_text
  pc_description :: "sql_text option"
  pc_icon :: "sql_text option"
  pc_created_at :: "timestamptz option"

record products_row =
  p_id :: uuid
  p_farmer_id :: uuid
  p_category_id :: "uuid option"
  p_name :: sql_text
  p_description :: sql_text
  p_price :: decimal_10_2
  p_unit :: sql_text
  p_stock_quantity :: int
  p_low_stock_threshold :: "int option"
  p_images :: "jsonb option"
  p_is_organic :: "bool option"
  p_is_traditional :: "bool option"
  p_processing_method :: "sql_text option"
  p_shelf_life_days :: "int option"
  p_tags :: "sql_text list option"
  p_is_active :: "bool option"
  p_created_at :: "timestamptz option"
  p_updated_at :: "timestamptz option"

record orders_row =
  o_id :: uuid
  o_buyer_id :: uuid
  o_farmer_id :: uuid
  o_total_amount :: decimal_10_2
  o_status :: sql_text
  o_payment_status :: sql_text
  o_delivery_address :: jsonb
  o_notes :: "sql_text option"
  o_created_at :: "timestamptz option"
  o_updated_at :: "timestamptz option"

record order_items_row =
  oi_id :: uuid
  oi_order_id :: uuid
  oi_product_id :: uuid
  oi_quantity :: int
  oi_unit_price :: decimal_10_2
  oi_subtotal :: decimal_10_2
  oi_created_at :: "timestamptz option"

record reviews_row =
  r_id :: uuid
  r_product_id :: uuid
  r_buyer_id :: uuid
  r_order_id :: "uuid option"
  r_rating :: int
  r_comment :: "sql_text option"
  r_is_verified_purchase :: "bool option"
  r_created_at :: "timestamptz option"
  r_updated_at :: "timestamptz option"

text \<open>The persisted state: one list of rows per table.\<close>

record db =
  user_profiles :: "user_profiles_row list"
  product_categories :: "product_categories_row list"
  products :: "products_row list"
  orders :: "orders_row list"
  order_items :: "order_items_row list"
  reviews :: "reviews_row list"

section \<open>Statements, actors and row-level security\<close>

text \<open>
  A statement on one row either commits (\<open>Inr\<close> of the new state) or leaves the state
  as it was (\<open>Inl\<close> of the reason); a read returns rows or a reason.
  \<open>InfiniteRecursion\<close>: the statement is aborted while its policies are expanded (error
  42P17, "infinite recursion detected in policy"). \<open>RowFiltered\<close>: the target row does
  not exist or a \<^verbatim>\<open>USING\<close> expression is not true for it, or the table has no policy
  for the command, so the statement touches no row. \<open>PolicyViolation\<close>: a
  \<^verbatim>\<open>WITH CHECK\<close> expression is not true for the new row. The other four are the
  classes of integrity errors.
\<close>

datatype violation =
    InfiniteRecursion
  | RowFiltered
  | PolicyViolation
  | NumericValueOutOfRange
  | CheckViolation
  | UniqueViolation
  | ForeignKeyViolation

text \<open>
  Who issues a statement. Every table has \<^verbatim>\<open>ENABLE ROW LEVEL SECURITY\<close> (not
  \<^verbatim>\<open>FORCE\<close>) and every policy is \<^verbatim>\<open>TO authenticated\<close>. The owner of the tables,
  the role that runs the migrations and their seed \<^verbatim>\<open>INSERT\<close>, is therefore not
  subject to the policies; a signed-in client is, and \<^verbatim>\<open>auth.uid()\<close> is its identifier.
\<close>

datatype actor = TableOwner | Authenticated uuid

text \<open>The tables whose policies a statement of this development can expand.\<close>

datatype relation = UserProfiles | Products | Orders | OrderItems | Reviews

text \<open>
  How the policies of a table are applied to a client's statement. The expressions of the
  policies that apply are added to the statement, and every subquery in them is expanded
  in turn: the table a subquery reads gets its own \<^verbatim>\<open>FOR SELECT\<close> policies, so the
  subquery returns the rows the client may read. While the policies of a table are being
  expanded the table is on the list \<open>activeRIRs\<close>; when policies with a subquery are to be
  added to a table that is already on the list, the statement is aborted. All of this
  happens before a row is looked at. The functions \<open>rls_read_\<close>\<open>t\<close> below give, for each
  table \<open>t\<close>, the rows a subquery or a read returns to the client \<open>uid\<close>, or the abort; a
  policy expression is a function of the rows its subqueries return.
\<close>

text \<open>\<^verbatim>\<open>EXISTS (SELECT ...)\<close>: the subquery returns at least one row.\<close>

definition sql_exists :: "'a list \<Rightarrow> bool" where
  "sql_exists rows \<longleftrightarrow> rows \<noteq> []"

text \<open>
  A scalar subquery \<^verbatim>\<open>(SELECT c FROM ...)\<close>: NULL on no row, the value on one row, an
  error on more than one.
\<close>

datatype 'a scalar = Null | Val 'a | MoreThanOneRow

fun scalar_subquery :: "'a list \<Rightarrow> 'a scalar" where
  "scalar_subquery [] = Null"
| "scalar_subquery [v] = Val v"
| "scalar_subquery (v # w # vs) = MoreThanOneRow"

text \<open>
  \<^verbatim>\<open>EXISTS (SELECT 1 FROM user_profiles WHERE id = auth.uid() AND role IN (...))\<close>,
  the subquery that the policies of every table repeat; \<open>profiles\<close> are the rows of
  \<^verbatim>\<open>user_profiles\<close> that the subquery returns.
\<close>

definition exists_profile_with_role ::
  "user_profiles_row list \<Rightarrow> uuid \<Rightarrow> sql_text list \<Rightarrow> bool" where
  "exists_profile_with_role profiles uid roles \<longleftrightarrow>
     sql_exists (filter (\<lambda>u. up_id u = uid \<and> up_role u \<in> set roles) profiles)"

section \<open>user_profiles\<close>

definition user_profiles_role_check :: "user_profiles_row \<Rightarrow> bool" where
  "user_profiles_role_check u \<longleftrightarrow> up_role u \<in> set [''admin'', ''farmer'', ''buyer'']"

text \<open>Policy "Users can read own profile": \<^verbatim>\<open>USING (auth.uid() = id)\<close>.\<close>

definition users_can_read_own_profile :: "uuid \<Rightarrow> user_profiles_row \<Rightarrow> bool" where
  "users_can_read_own_profile uid row \<longleftrightarrow> uid = up_id row"

text \<open>Policy "Admins can read all profiles": a policy of \<^verbatim>\<open>user_profiles\<close> whose
  subquery reads \<^verbatim>\<open>user_profiles\<close>.\<close>

definition admins_can_read_all_profiles ::
  "user_profiles_row list \<Rightarrow> uuid \<Rightarrow> user_profiles_row \<Rightarrow> bool" where
  "admins_can_read_all_profiles profiles uid row \<longleftrightarrow>
     exists_profile_with_role profiles uid [''admin'']"

text \<open>The two \<^verbatim>\<open>FOR SELECT\<close> policies are permissive: their expressions are OR-ed.\<close>

definition user_profiles_select_using ::
  "user_profiles_row list \<Rightarrow> uuid \<Rightarrow> user_profiles_row \<Rightarrow> bool" where
  "user_profiles_select_using profiles uid row \<longleftrightarrow>
     users_can_read_own_profile uid row \<or> admins_can_read_all_profiles profiles uid row"

text \<open>
  The rows of \<^verbatim>\<open>user_profiles\<close> a client may read. The \<^verbatim>\<open>FOR SELECT\<close> policies have
  a subquery, so the table must not be on \<open>activeRIRs\<close> yet; the subquery reads
  \<^verbatim>\<open>user_profiles\<close> again, with \<^verbatim>\<open>user_profiles\<close> now on the list.
\<close>

function rls_read_user_profiles ::
  "relation list \<Rightarrow> db \<Rightarrow> uuid \<Rightarrow> violation + user_profiles_row list" where
  "rls_read_user_profiles activeRIRs d uid =
     (if UserProfiles \<in> set activeRIRs then Inl InfiniteRecursion
      else case rls_read_user_profiles (UserProfiles # activeRIRs) d uid of
             Inl e \<Rightarrow> Inl e
           | Inr profiles \<Rightarrow>
               Inr (filter (user_profiles_select_using profiles uid) (user_profiles d)))"
  by pat_completeness auto
termination
  by (relation "measure (\<lambda>(activeRIRs, d, uid). if UserProfiles \<in> set activeRIRs then 0 else 1)")
    auto

declare rls_read_user_profiles.simps [simp del]

text \<open>\<^verbatim>\<open>SELECT * FROM user_profiles\<close>.\<close>

definition select_from_user_profiles :: "db \<Rightarrow> actor \<Rightarrow> violation + user_profiles_row list" where
  "select_from_user_profiles d a =
     (case a of
        TableOwner \<Rightarrow> Inr (user_profiles d)
      | Authenticated uid \<Rightarrow> rls_read_user_profiles [] d uid)"

text \<open>
  Policy "Users can update own profile". \<^verbatim>\<open>USING\<close> is evaluated on the existing row,
  \<^verbatim>\<open>WITH CHECK\<close> on the proposed one; in the latter, \<^verbatim>\<open>role\<close> is the proposed
  row's column and \<open>profiles\<close> are the rows the scalar subquery reads.
\<close>

definition users_can_update_own_profile_using :: "uuid \<Rightarrow> user_profiles_row \<Rightarrow> bool" where
  "users_can_update_own_profile_using uid old \<longleftrightarrow> uid = up_id old"

definition users_can_update_own_profile_check ::
  "user_profiles_row list \<Rightarrow> uuid \<Rightarrow> user_profiles_row \<Rightarrow> bool" where
  "users_can_update_own_profile_check profiles uid new \<longleftrightarrow>
     uid = up_id new \<and>
     (case scalar_subquery (map up_role (filter (\<lambda>u. up_id u = uid) profiles)) of
        Val v \<Rightarrow> up_role new = v
      | Null \<Rightarrow> False
      | MoreThanOneRow \<Rightarrow> False)"

definition replace_user_profiles_row :: "db \<Rightarrow> user_profiles_row \<Rightarrow> violation + db" where
  "replace_user_profiles_row d new =
     (if \<not> user_profiles_role_check new then Inl CheckViolation
      else Inr (d\<lparr>user_profiles :=
             map (\<lambda>u. if up_id u = up_id new then new else u) (user_profiles d)\<rparr>))"

text \<open>
  \<^verbatim>\<open>UPDATE user_profiles SET ... WHERE id = k\<close> assigning the columns other than the
  key: the target is the stored row with the proposed row's \<open>id\<close>. The \<^verbatim>\<open>WHERE\<close>
  reads the table, so for a client the \<^verbatim>\<open>FOR SELECT\<close> policies apply to the stored
  and to the proposed row besides the \<^verbatim>\<open>FOR UPDATE\<close> policy; \<^verbatim>\<open>user_profiles\<close> is on
  \<open>activeRIRs\<close> when their subqueries are expanded.
\<close>

definition update_user_profiles :: "db \<Rightarrow> actor \<Rightarrow> user_profiles_row \<Rightarrow> violation + db" where
  "update_user_profiles d a new =
     (case a of
        TableOwner \<Rightarrow>
          (case find (\<lambda>u. up_id u = up_id new) (user_profiles d) of
             None \<Rightarrow> Inl RowFiltered
           | Some old \<Rightarrow> replace_user_profiles_row d new)
      | Authenticated uid \<Rightarrow>
          (case rls_read_user_profiles [UserProfiles] d uid of
             Inl e \<Rightarrow> Inl e
           | Inr profiles \<Rightarrow>
               (case find (\<lambda>u. up_id u = up_id new) (user_profiles d) of
                  None \<Rightarrow> Inl RowFiltered
                | Some old \<Rightarrow>
                    if \<not> (user_profiles_select_using profiles uid old \<and>
                           users_can_update_own_profile_using uid old)
                      then Inl RowFiltered
                    else if \<not> (users_can_update_own_profile_check profiles uid new \<and>
                                user_profiles_select_using profiles uid new)
                      then Inl PolicyViolation
                    else replace_user_profiles_row d new)))"

section \<open>products\<close>

definition products_types_ok :: "products_row \<Rightarrow> bool" where
  "products_types_ok p \<longleftrightarrow>
     numeric_10_2_ok (p_price p) \<and> int4_ok (p_stock_quantity p) \<and>
     int4_opt_ok (p_low_stock_threshold p) \<and> int4_opt_ok (p_shelf_life_days p)"

text \<open>\<^verbatim>\<open>CHECK (price >= 0)\<close> and \<^verbatim>\<open>CHECK (stock_quantity >= 0)\<close>.\<close>

definition products_check :: "products_row \<Rightarrow> bool" where
  "products_check p \<longleftrightarrow> p_price p \<ge> 0 \<and> p_stock_quantity p \<ge> 0"

definition products_fk :: "db \<Rightarrow> products_row \<Rightarrow> bool" where
  "products_fk d p \<longleftrightarrow>
     p_farmer_id p \<in> set (map up_id (user_profiles d)) \<and>
     (case p_category_id p of
        None \<Rightarrow> True
      | Some c \<Rightarrow> c \<in> set (map pc_id (product_categories d)))"

text \<open>Policy "Farmers can read own products", the only \<^verbatim>\<open>FOR SELECT\<close> policy.\<close>

definition farmers_can_read_own_products ::
  "user_profiles_row list \<Rightarrow> uuid \<Rightarrow> products_row \<Rightarrow> bool" where
  "farmers_can_read_own_products profiles uid row \<longleftrightarrow>
     p_farmer_id row = uid \<or> exists_profile_with_role profiles uid [''admin'', ''buyer'']"

text \<open>Policy "Farmers can create own products".\<close>

definition farmers_can_create_own_products ::
  "user_profiles_row list \<Rightarrow> uuid \<Rightarrow> products_row \<Rightarrow> bool" where
  "farmers_can_create_own_products profiles uid new \<longleftrightarrow>
     p_farmer_id new = uid \<and> exists_profile_with_role profiles uid [''farmer'']"

text \<open>Policy "Farmers can update own products".\<close>

definition farmers_can_update_own_products_using :: "uuid \<Rightarrow> products_row \<Rightarrow> bool" where
  "farmers_can_update_own_products_using uid old \<longleftrightarrow> p_farmer_id old = uid"

definition farmers_can_update_own_products_check :: "uuid \<Rightarrow> products_row \<Rightarrow> bool" where
  "farmers_can_update_own_products_check uid new \<longleftrightarrow> p_farmer_id new = uid"

text \<open>Policy "Farmers can delete own products".\<close>

definition farmers_can_delete_own_products :: "uuid \<Rightarrow> products_row \<Rightarrow> bool" where
  "farmers_can_delete_own_products uid old \<longleftrightarrow> p_farmer_id old = uid"

text \<open>The rows of \<^verbatim>\<open>products\<close> a client may read; the policy's subquery reads
  \<^verbatim>\<open>user_profiles\<close>.\<close>

definition rls_read_products :: "relation list \<Rightarrow> db \<Rightarrow> uuid \<Rightarrow> violation + products_row list" where
  "rls_read_products activeRIRs d uid =
     (if Products \<in> set activeRIRs then Inl InfiniteRecursion
      else case rls_read_user_profiles (Products # activeRIRs) d uid of
             Inl e \<Rightarrow> Inl e
           | Inr profiles \<Rightarrow>
               Inr (filter (farmers_can_read_own_products profiles uid) (products d)))"

text \<open>\<^verbatim>\<open>SELECT * FROM products\<close>.\<close>

definition select_from_products :: "db \<Rightarrow> actor \<Rightarrow> violation + products_row list" where
  "select_from_products d a =
     (case a of
        TableOwner \<Rightarrow> Inr (products d)
      | Authenticated uid \<Rightarrow> rls_read_products [] d uid)"

text \<open>
  \<^verbatim>\<open>loadProducts\<close> of the product listing page, for the signed-in user \<open>uid\<close>: the query
  \<^verbatim>\<open>.from('products').select(...).eq('is_active', true).gt('stock_quantity', 0)\<close>,
  and what the page's \<^verbatim>\<open>products\<close> state holds afterwards. On an error the function
  throws, the \<^verbatim>\<open>catch\<close> logs it, and the state keeps its initial value \<^verbatim>\<open>[]\<close>. The
  model keeps the whole row where the query projects columns and embeds the farmer and
  the category. A NULL \<^verbatim>\<open>is_active\<close> does not satisfy \<^verbatim>\<open>is_active = true\<close>.
\<close>

definition loadProducts :: "db \<Rightarrow> uuid \<Rightarrow> products_row list" where
  "loadProducts d uid =
     (case select_from_products d (Authenticated uid) of
        Inl e \<Rightarrow> []
      | Inr rows \<Rightarrow> filter (\<lambda>p. p_is_active p = Some True \<and> p_stock_quantity p > 0) rows)"

text \<open>
  The product query of \<^verbatim>\<open>loadData\<close> in the farmer's dashboard, for the signed-in user
  \<open>uid\<close>: \<^verbatim>\<open>.from('products').select(...).eq('farmer_id', user.id)\<close>; the state is set
  only when the response carries data (\<^verbatim>\<open>if (productsRes.data)\<close>) and is \<^verbatim>\<open>[]\<close>
  otherwise. The order of the rows is left as stored.
\<close>

definition loadData_products :: "db \<Rightarrow> uuid \<Rightarrow> products_row list" where
  "loadData_products d uid =
     (case select_from_products d (Authenticated uid) of
        Inl e \<Rightarrow> []
      | Inr rows \<Rightarrow> filter (\<lambda>p. p_farmer_id p = uid) rows)"

text \<open>The constraints on a new and on a replaced row: \<^verbatim>\<open>CHECK\<close>, primary key, foreign
  keys, in the order in which they are tested.\<close>

definition insert_products_row :: "db \<Rightarrow> products_row \<Rightarrow> violation + db" where
  "insert_products_row d new =
     (if \<not> products_check new then Inl CheckViolation
      else if p_id new \<in> set (map p_id (products d)) then Inl UniqueViolation
      else if \<not> products_fk d new then Inl ForeignKeyViolation
      else Inr (d\<lparr>products := products d @ [new]\<rparr>))"

definition replace_products_row :: "db \<Rightarrow> products_row \<Rightarrow> violation + db" where
  "replace_products_row d new =
     (if \<not> products_check new then Inl CheckViolation
      else if \<not> products_fk d new then Inl ForeignKeyViolation
      else Inr (d\<lparr>products :=
             map (\<lambda>p. if p_id p = p_id new then new else p) (products d)\<rparr>))"

text \<open>\<^verbatim>\<open>INSERT INTO products\<close>, without \<^verbatim>\<open>RETURNING\<close>. For a client the
  \<^verbatim>\<open>WITH CHECK\<close> of the insert policy is expanded, with \<^verbatim>\<open>products\<close> on
  \<open>activeRIRs\<close>.\<close>

definition insert_into_products :: "db \<Rightarrow> actor \<Rightarrow> products_row \<Rightarrow> violation + db" where
  "insert_into_products d a new =
     (case a of
        TableOwner \<Rightarrow>
          if \<not> products_types_ok new then Inl NumericValueOutOfRange
          else insert_products_row d new
      | Authenticated uid \<Rightarrow>
          (case rls_read_user_profiles [Products] d uid of
             Inl e \<Rightarrow> Inl e
           | Inr profiles \<Rightarrow>
               if \<not> products_types_ok new then Inl NumericValueOutOfRange
               else if \<not> farmers_can_create_own_products profiles uid new
                 then Inl PolicyViolation
               else insert_products_row d new))"

text \<open>\<^verbatim>\<open>UPDATE products SET ... WHERE id = k\<close>, the key kept.\<close>

definition update_products :: "db \<Rightarrow> actor \<Rightarrow> products_row \<Rightarrow> violation + db" where
  "update_products d a new =
     (case a of
        TableOwner \<Rightarrow>
          (case find (\<lambda>p. p_id p = p_id new) (products d) of
             None \<Rightarrow> Inl RowFiltered
           | Some old \<Rightarrow>
               if \<not> products_types_ok new then Inl NumericValueOutOfRange
               else replace_products_row d new)
      | Authenticated uid \<Rightarrow>
          (case rls_read_user_profiles [Products] d uid of
             Inl e \<Rightarrow> Inl e
           | Inr profiles \<Rightarrow>
               (case find (\<lambda>p. p_id p = p_id new) (products d) of
                  None \<Rightarrow> Inl RowFiltered
                | Some old \<Rightarrow>
                    if \<not> (farmers_can_read_own_products profiles uid old \<and>
                           farmers_can_update_own_products_using uid old)
                      then Inl RowFiltered
                    else if \<not> products_types_ok new then Inl NumericValueOutOfRange
                    else if \<not> (farmers_can_update_own_products_check uid new \<and>
                                farmers_can_read_own_products profiles uid new)
                      then Inl PolicyViolation
                    else replace_products_row d new)))"

section \<open>orders\<close>

definition order_statuses :: "sql_text list" where
  "order_statuses = [''pending'', ''confirmed'', ''shipped'', ''delivered'', ''cancelled'']"

definition payment_statuses :: "sql_text list" where
  "payment_statuses = [''pending'', ''completed'', ''failed'', ''refunded'']"

definition orders_types_ok :: "orders_row \<Rightarrow> bool" where
  "orders_types_ok o' \<longleftrightarrow> numeric_10_2_ok (o_total_amount o')"

text \<open>The three \<^verbatim>\<open>CHECK\<close> constraints of \<^verbatim>\<open>orders\<close>.\<close>

definition orders_check :: "orders_row \<Rightarrow> bool" where
  "orders_check o' \<longleftrightarrow>
     o_total_amount o' \<ge> 0 \<and>
     o_status o' \<in> set order_statuses \<and>
     o_payment_status o' \<in> set payment_statuses"

definition orders_fk :: "db \<Rightarrow> orders_row \<Rightarrow> bool" where
  "orders_fk d o' \<longleftrightarrow>
     o_buyer_id o' \<in> set (map up_id (user_profiles d)) \<and>
     o_farmer_id o' \<in> set (map up_id (user_profiles d))"

text \<open>Policies "Buyers can read own orders", "Farmers can read their orders",
  "Admins can read all orders".\<close>

definition buyers_can_read_own_orders :: "uuid \<Rightarrow> orders_row \<Rightarrow> bool" where
  "buyers_can_read_own_orders uid row \<longleftrightarrow> o_buyer_id row = uid"

definition farmers_can_read_their_orders :: "uuid \<Rightarrow> orders_row \<Rightarrow> bool" where
  "farmers_can_read_their_orders uid row \<longleftrightarrow> o_farmer_id row = uid"

definition admins_can_read_all_orders ::
  "user_profiles_row list \<Rightarrow> uuid \<Rightarrow> orders_row \<Rightarrow> bool" where
  "admins_can_read_all_orders profiles uid row \<longleftrightarrow>
     exists_profile_with_role profiles uid [''admin'']"

definition orders_select_using :: "user_profiles_row list \<Rightarrow> uuid \<Rightarrow> orders_row \<Rightarrow> bool" where
  "orders_select_using profiles uid row \<longleftrightarrow>
     buyers_can_read_own_orders uid row \<or> farmers_can_read_their_orders uid row \<or>
     admins_can_read_all_orders profiles uid row"

text \<open>The rows of \<^verbatim>\<open>orders\<close> a client may read; the admin policy's subquery reads
  \<^verbatim>\<open>user_profiles\<close>.\<close>

definition rls_read_orders :: "relation list \<Rightarrow> db \<Rightarrow> uuid \<Rightarrow> violation + orders_row list" where
  "rls_read_orders activeRIRs d uid =
     (if Orders \<in> set activeRIRs then Inl InfiniteRecursion
      else case rls_read_user_profiles (Orders # activeRIRs) d uid of
             Inl e \<Rightarrow> Inl e
           | Inr profiles \<Rightarrow> Inr (filter (orders_select_using profiles uid) (orders d)))"

definition select_from_orders :: "db \<Rightarrow> actor \<Rightarrow> violation + orders_row list" where
  "select_from_orders d a =
     (case a of
        TableOwner \<Rightarrow> Inr (orders d)
      | Authenticated uid \<Rightarrow> rls_read_orders [] d uid)"

text \<open>Policy "Buyers can create orders".\<close>

definition buyers_can_create_orders ::
  "user_profiles_row list \<Rightarrow> uuid \<Rightarrow> orders_row \<Rightarrow> bool" where
  "buyers_can_create_orders profiles uid new \<longleftrightarrow>
     o_buyer_id new = uid \<and> exists_profile_with_role profiles uid [''buyer'']"

text \<open>Policy "Farmers can update their orders".\<close>

definition farmers_can_update_their_orders_using :: "uuid \<Rightarrow> orders_row \<Rightarrow> bool" where
  "farmers_can_update_their_orders_using uid old \<longleftrightarrow> o_farmer_id old = uid"

definition farmers_can_update_their_orders_check :: "uuid \<Rightarrow> orders_row \<Rightarrow> bool" where
  "farmers_can_update_their_orders_check uid new \<longleftrightarrow> o_farmer_id new = uid"

definition insert_orders_row :: "db \<Rightarrow> orders_row \<Rightarrow> violation + db" where
  "insert_orders_row d new =
     (if \<not> orders_check new then Inl CheckViolation
      else if o_id new \<in> set (map o_id (orders d)) then Inl UniqueViolation
      else if \<not> orders_fk d new then Inl ForeignKeyViolation
      else Inr (d\<lparr>orders := orders d @ [new]\<rparr>))"

definition replace_orders_row :: "db \<Rightarrow> orders_row \<Rightarrow> violation + db" where
  "replace_orders_row d new =
     (if \<not> orders_check new then Inl CheckViolation
      else if \<not> orders_fk d new then Inl ForeignKeyViolation
      else Inr (d\<lparr>orders :=
             map (\<lambda>o'. if o_id o' = o_id new then new else o') (orders d)\<rparr>))"

definition insert_into_orders :: "db \<Rightarrow> actor \<Rightarrow> orders_row \<Rightarrow> violation + db" where
  "insert_into_orders d a new =
     (case a of
        TableOwner \<Rightarrow>
          if \<not> orders_types_ok new then Inl NumericValueOutOfRange
          else insert_orders_row d new
      | Authenticated uid \<Rightarrow>
          (case rls_read_user_profiles [Orders] d uid of
             Inl e \<Rightarrow> Inl e
           | Inr profiles \<Rightarrow>
               if \<not> orders_types_ok new then Inl NumericValueOutOfRange
               else if \<not> buyers_can_create_orders profiles uid new then Inl PolicyViolation
               else insert_orders_row d new))"

text \<open>\<^verbatim>\<open>UPDATE orders SET ... WHERE id = k\<close>, the key kept. The \<^verbatim>\<open>WHERE\<close> reads the
  table, so for a client the \<^verbatim>\<open>FOR SELECT\<close> policies are added to the statement
  with the \<^verbatim>\<open>FOR UPDATE\<close> policy.\<close>

definition update_orders :: "db \<Rightarrow> actor \<Rightarrow> orders_row \<Rightarrow> violation + db" where
  "update_orders d a new =
     (case a of
        TableOwner \<Rightarrow>
          (case find (\<lambda>o'. o_id o' = o_id new) (orders d) of
             None \<Rightarrow> Inl RowFiltered
           | Some old \<Rightarrow>
               if \<not> orders_types_ok new then Inl NumericValueOutOfRange
               else replace_orders_row d new)
      | Authenticated uid \<Rightarrow>
          (case rls_read_user_profiles [Orders] d uid of
             Inl e \<Rightarrow> Inl e
           | Inr profiles \<Rightarrow>
               (case find (\<lambda>o'. o_id o' = o_id new) (orders d) of
                  None \<Rightarrow> Inl RowFiltered
                | Some old \<Rightarrow>
                    if \<not> (orders_select_using profiles uid old \<and>
                           farmers_can_update_their_orders_using uid old)
                      then Inl RowFiltered
                    else if \<not> orders_types_ok new then Inl NumericValueOutOfRange
                    else if \<not> (farmers_can_update_their_orders_check uid new \<and>
                                orders_select_using profiles uid new)
                      then Inl PolicyViolation
                    else replace_orders_row d new)))"

section \<open>order_items\<close>

definition order_items_types_ok :: "order_items_row \<Rightarrow> bool" where
  "order_items_types_ok i \<longleftrightarrow>
     int4_ok (oi_quantity i) \<and> numeric_10_2_ok (oi_unit_price i) \<and>
     numeric_10_2_ok (oi_subtotal i)"

text \<open>\<^verbatim>\<open>CHECK (quantity > 0)\<close>, \<^verbatim>\<open>CHECK (unit_price >= 0)\<close>,
  \<^verbatim>\<open>CHECK (subtotal >= 0)\<close>.\<close>

definition order_items_check :: "order_items_row \<Rightarrow> bool" where
  "order_items_check i \<longleftrightarrow> oi_quantity i > 0 \<and> oi_unit_price i \<ge> 0 \<and> oi_subtotal i \<ge> 0"

definition order_items_fk :: "db \<Rightarrow> order_items_row \<Rightarrow> bool" where
  "order_items_fk d i \<longleftrightarrow>
     oi_order_id i \<in> set (map o_id (orders d)) \<and>
     oi_product_id i \<in> set (map p_id (products d))"

text \<open>Policy "Users can read order items for their orders"; \<open>ords\<close> are the rows of
  \<^verbatim>\<open>orders\<close> its subquery returns.\<close>

definition users_can_read_order_items_for_their_orders ::
  "orders_row list \<Rightarrow> uuid \<Rightarrow> order_items_row \<Rightarrow> bool" where
  "users_can_read_order_items_for_their_orders ords uid row \<longleftrightarrow>
     sql_exists (filter (\<lambda>o'. o_id o' = oi_order_id row \<and>
                              (o_buyer_id o' = uid \<or> o_farmer_id o' = uid)) ords)"

text \<open>Policy "Buyers can create order items".\<close>

definition buyers_can_create_order_items ::
  "orders_row list \<Rightarrow> uuid \<Rightarrow> order_items_row \<Rightarrow> bool" where
  "buyers_can_create_order_items ords uid new \<longleftrightarrow>
     sql_exists (filter (\<lambda>o'. o_id o' = oi_order_id new \<and> o_buyer_id o' = uid) ords)"

text \<open>The rows of \<^verbatim>\<open>order_items\<close> a client may read; the policy's subquery reads
  \<^verbatim>\<open>orders\<close>.\<close>

definition rls_read_order_items ::
  "relation list \<Rightarrow> db \<Rightarrow> uuid \<Rightarrow> violation + order_items_row list" where
  "rls_read_order_items activeRIRs d uid =
     (if OrderItems \<in> set activeRIRs then Inl InfiniteRecursion
      else case rls_read_orders (OrderItems # activeRIRs) d uid of
             Inl e \<Rightarrow> Inl e
           | Inr ords \<Rightarrow>
               Inr (filter (users_can_read_order_items_for_their_orders ords uid)
                      (order_items d)))"

definition select_from_order_items :: "db \<Rightarrow> actor \<Rightarrow> violation + order_items_row list" where
  "select_from_order_items d a =
     (case a of
        TableOwner \<Rightarrow> Inr (order_items d)
      | Authenticated uid \<Rightarrow> rls_read_order_items [] d uid)"

definition insert_order_items_row :: "db \<Rightarrow> order_items_row \<Rightarrow> violation + db" where
  "insert_order_items_row d new =
     (if \<not> order_items_check new then Inl CheckViolation
      else if oi_id new \<in> set (map oi_id (order_items d)) then Inl UniqueViolation
      else if \<not> order_items_fk d new then Inl ForeignKeyViolation
      else Inr (d\<lparr>order_items := order_items d @ [new]\<rparr>))"

definition replace_order_items_row :: "db \<Rightarrow> order_items_row \<Rightarrow> violation + db" where
  "replace_order_items_row d new =
     (if \<not> order_items_check new then Inl CheckViolation
      else if \<not> order_items_fk d new then Inl ForeignKeyViolation
      else Inr (d\<lparr>order_items :=
             map (\<lambda>i. if oi_id i = oi_id new then new else i) (order_items d)\<rparr>))"

definition insert_into_order_items :: "db \<Rightarrow> actor \<Rightarrow> order_items_row \<Rightarrow> violation + db" where
  "insert_into_order_items d a new =
     (case a of
        TableOwner \<Rightarrow>
          if \<not> order_items_types_ok new then Inl NumericValueOutOfRange
          else insert_order_items_row d new
      | Authenticated uid \<Rightarrow>
          (case rls_read_orders [OrderItems] d uid of
             Inl e \<Rightarrow> Inl e
           | Inr ords \<Rightarrow>
               if \<not> order_items_types_ok new then Inl NumericValueOutOfRange
               else if \<not> buyers_can_create_order_items ords uid new then Inl PolicyViolation
               else insert_order_items_row d new))"

text \<open>\<^verbatim>\<open>UPDATE order_items SET ... WHERE id = k\<close>. The table has no
  \<^verbatim>\<open>FOR UPDATE\<close> policy, so a client's statement, once its \<^verbatim>\<open>FOR SELECT\<close> policy is
  expanded, sees no row.\<close>

definition update_order_items :: "db \<Rightarrow> actor \<Rightarrow> order_items_row \<Rightarrow> violation + db" where
  "update_order_items d a new =
     (case a of
        TableOwner \<Rightarrow>
          (case find (\<lambda>i. oi_id i = oi_id new) (order_items d) of
             None \<Rightarrow> Inl RowFiltered
           | Some old \<Rightarrow>
               if \<not> order_items_types_ok new then Inl NumericValueOutOfRange
               else replace_order_items_row d new)
      | Authenticated uid \<Rightarrow>
          (case rls_read_orders [OrderItems] d uid of
             Inl e \<Rightarrow> Inl e
           | Inr ords \<Rightarrow> Inl RowFiltered))"

text \<open>\<^verbatim>\<open>DELETE FROM order_items WHERE id = k\<close>; no \<^verbatim>\<open>FOR DELETE\<close> policy either.\<close>

definition delete_from_order_items :: "db \<Rightarrow> actor \<Rightarrow> uuid \<Rightarrow> violation + db" where
  "delete_from_order_items d a k =
     (case a of
        TableOwner \<Rightarrow>
          (case find (\<lambda>i. oi_id i = k) (order_items d) of
             None \<Rightarrow> Inl RowFiltered
           | Some old \<Rightarrow> Inr (d\<lparr>order_items := filter (\<lambda>i. oi_id i \<noteq> k) (order_items d)\<rparr>))
      | Authenticated uid \<Rightarrow>
          (case rls_read_orders [OrderItems] d uid of
             Inl e \<Rightarrow> Inl e
           | Inr ords \<Rightarrow> Inl RowFiltered))"

section \<open>reviews\<close>

definition reviews_types_ok :: "reviews_row \<Rightarrow> bool" where
  "reviews_types_ok r \<longleftrightarrow> int4_ok (r_rating r)"

text \<open>\<^verbatim>\<open>CHECK (rating >= 1 AND rating <= 5)\<close>.\<close>

definition reviews_check :: "reviews_row \<Rightarrow> bool" where
  "reviews_check r \<longleftrightarrow> r_rating r \<ge> 1 \<and> r_rating r \<le> 5"

text \<open>
  \<^verbatim>\<open>UNIQUE(product_id, buyer_id, order_id)\<close>: two rows conflict when the three columns
  are equal. \<^verbatim>\<open>order_id\<close> is nullable and a NULL is equal to nothing, itself included, so
  a row without an order conflicts with no row.
\<close>

definition reviews_unique_conflict :: "reviews_row \<Rightarrow> reviews_row \<Rightarrow> bool" where
  "reviews_unique_conflict a b \<longleftrightarrow>
     r_product_id a = r_product_id b \<and> r_buyer_id a = r_buyer_id b \<and>
     (case r_order_id a of
        None \<Rightarrow> False
      | Some x \<Rightarrow> (case r_order_id b of None \<Rightarrow> False | Some y \<Rightarrow> x = y))"

definition reviews_fk :: "db \<Rightarrow> reviews_row \<Rightarrow> bool" where
  "reviews_fk d r \<longleftrightarrow>
     r_product_id r \<in> set (map p_id (products d)) \<and>
     r_buyer_id r \<in> set (map up_id (user_profiles d)) \<and>
     (case r_order_id r of
        None \<Rightarrow> True
      | Some k \<Rightarrow> k \<in> set (map o_id (orders d)))"

text \<open>Policy "Anyone can read reviews": \<^verbatim>\<open>USING (true)\<close>.\<close>

definition anyone_can_read_reviews :: "uuid \<Rightarrow> reviews_row \<Rightarrow> bool" where
  "anyone_can_read_reviews uid row \<longleftrightarrow> True"

text \<open>
  Policy "Buyers can create reviews for purchased products". \<open>profiles\<close>, \<open>items\<close> and
  \<open>ords\<close> are the rows of \<^verbatim>\<open>user_profiles\<close>, \<^verbatim>\<open>order_items\<close> and \<^verbatim>\<open>orders\<close> that
  its subqueries read. The second \<^verbatim>\<open>EXISTS\<close> joins \<^verbatim>\<open>order_items\<close> with
  \<^verbatim>\<open>orders\<close> on \<^verbatim>\<open>orders.id = order_items.order_id\<close> and keeps the pairs whose item
  is for the reviewed product and whose order belongs to the actor and is delivered.
\<close>

definition buyers_can_create_reviews_for_purchased_products ::
  "user_profiles_row list \<Rightarrow> order_items_row list \<Rightarrow> orders_row list \<Rightarrow>
   uuid \<Rightarrow> reviews_row \<Rightarrow> bool" where
  "buyers_can_create_reviews_for_purchased_products profiles items ords uid new \<longleftrightarrow>
     r_buyer_id new = uid \<and>
     sql_exists (filter (\<lambda>u. up_id u = uid \<and> up_role u = ''buyer'') profiles) \<and>
     sql_exists (filter (\<lambda>(i, o'). oi_product_id i = r_product_id new \<and>
                                   o_buyer_id o' = uid \<and> o_status o' = ''delivered'')
                   (concat (map (\<lambda>i. map (\<lambda>o'. (i, o'))
                                        (filter (\<lambda>o'. o_id o' = oi_order_id i) ords))
                                items)))"

text \<open>Policy "Buyers can update own reviews".\<close>

definition buyers_can_update_own_reviews_using :: "uuid \<Rightarrow> reviews_row \<Rightarrow> bool" where
  "buyers_can_update_own_reviews_using uid old \<longleftrightarrow> r_buyer_id old = uid"

definition buyers_can_update_own_reviews_check :: "uuid \<Rightarrow> reviews_row \<Rightarrow> bool" where
  "buyers_can_update_own_reviews_check uid new \<longleftrightarrow> r_buyer_id new = uid"

text \<open>The rows of \<^verbatim>\<open>reviews\<close> a client may read. The only \<^verbatim>\<open>FOR SELECT\<close> policy has
  no subquery, so nothing is expanded and \<open>activeRIRs\<close> is not consulted.\<close>

definition rls_read_reviews :: "relation list \<Rightarrow> db \<Rightarrow> uuid \<Rightarrow> violation + reviews_row list" where
  "rls_read_reviews activeRIRs d uid = Inr (filter (anyone_can_read_reviews uid) (reviews d))"

definition select_from_reviews :: "db \<Rightarrow> actor \<Rightarrow> violation + reviews_row list" where
  "select_from_reviews d a =
     (case a of
        TableOwner \<Rightarrow> Inr (reviews d)
      | Authenticated uid \<Rightarrow> rls_read_reviews [] d uid)"

definition insert_reviews_row :: "db \<Rightarrow> reviews_row \<Rightarrow> violation + db" where
  "insert_reviews_row d new =
     (if \<not> reviews_check new then Inl CheckViolation
      else if r_id new \<in> set (map r_id (reviews d)) \<or>
              filter (reviews_unique_conflict new) (reviews d) \<noteq> []
        then Inl UniqueViolation
      else if \<not> reviews_fk d new then Inl ForeignKeyViolation
      else Inr (d\<lparr>reviews := reviews d @ [new]\<rparr>))"

definition replace_reviews_row :: "db \<Rightarrow> reviews_row \<Rightarrow> violation + db" where
  "replace_reviews_row d new =
     (if \<not> reviews_check new then Inl CheckViolation
      else if filter (\<lambda>r. r_id r \<noteq> r_id new \<and> reviews_unique_conflict new r) (reviews d) \<noteq> []
        then Inl UniqueViolation
      else if \<not> reviews_fk d new then Inl ForeignKeyViolation
      else Inr (d\<lparr>reviews :=
             map (\<lambda>r. if r_id r = r_id new then new else r) (reviews d)\<rparr>))"

text \<open>
  \<^verbatim>\<open>INSERT INTO reviews\<close>, without \<^verbatim>\<open>RETURNING\<close>. For a client the three tables read
  by the subqueries of the insert policy are expanded first, with \<^verbatim>\<open>reviews\<close> on
  \<open>activeRIRs\<close>.
\<close>

definition insert_into_reviews :: "db \<Rightarrow> actor \<Rightarrow> reviews_row \<Rightarrow> violation + db" where
  "insert_into_reviews d a new =
     (case a of
        TableOwner \<Rightarrow>
          if \<not> reviews_types_ok new then Inl NumericValueOutOfRange
          else insert_reviews_row d new
      | Authenticated uid \<Rightarrow>
          (case rls_read_user_profiles [Reviews] d uid of
             Inl e \<Rightarrow> Inl e
           | Inr profiles \<Rightarrow>
          (case rls_read_order_items [Reviews] d uid of
             Inl e \<Rightarrow> Inl e
           | Inr items \<Rightarrow>
          (case rls_read_orders [Reviews] d uid of
             Inl e \<Rightarrow> Inl e
           | Inr ords \<Rightarrow>
               if \<not> reviews_types_ok new then Inl NumericValueOutOfRange
               else if \<not> buyers_can_create_reviews_for_purchased_products
                          profiles items ords uid new
                 then Inl PolicyViolation
               else insert_reviews_row d new))))"

text \<open>
  \<^verbatim>\<open>UPDATE reviews SET ... WHERE id = k\<close>, the key kept. None of the policies that apply
  (\<^verbatim>\<open>FOR SELECT\<close> and \<^verbatim>\<open>FOR UPDATE\<close>) has a subquery.
\<close>

definition update_reviews :: "db \<Rightarrow> actor \<Rightarrow> reviews_row \<Rightarrow> violation + db" where
  "update_reviews d a new =
     (case find (\<lambda>r. r_id r = r_id new) (reviews d) of
        None \<Rightarrow> Inl RowFiltered
      | Some old \<Rightarrow>
          (case a of
             TableOwner \<Rightarrow>
               if \<not> reviews_types_ok new then Inl NumericValueOutOfRange
               else replace_reviews_row d new
           | Authenticated uid \<Rightarrow>
               if \<not> (anyone_can_read_reviews uid old \<and>
                      buyers_can_update_own_reviews_using uid old)
                 then Inl RowFiltered
               else if \<not> reviews_types_ok new then Inl NumericValueOutOfRange
               else if \<not> (buyers_can_update_own_reviews_check uid new \<and>
                           anyone_can_read_reviews uid new)
                 then Inl PolicyViolation
               else replace_reviews_row d new))"

text \<open>\<^verbatim>\<open>DELETE FROM reviews WHERE id = k\<close>. The table has no \<^verbatim>\<open>FOR DELETE\<close> policy:
  a client's statement sees no row.\<close>

definition delete_from_reviews :: "db \<Rightarrow> actor \<Rightarrow> uuid \<Rightarrow> violation + db" where
  "delete_from_reviews d a k =
     (case a of
        TableOwner \<Rightarrow>
          (case find (\<lambda>r. r_id r = k) (reviews d) of
             None \<Rightarrow> Inl RowFiltered
           | Some old \<Rightarrow> Inr (d\<lparr>reviews := filter (\<lambda>r. r_id r \<noteq> k) (reviews d)\<rparr>))
      | Authenticated uid \<Rightarrow> Inl RowFiltered)"

text \<open>
  \<^verbatim>\<open>DELETE FROM products WHERE id = k\<close>. The foreign keys of \<^verbatim>\<open>order_items\<close> and
  \<^verbatim>\<open>reviews\<close> on the product are \<^verbatim>\<open>ON DELETE CASCADE\<close>. (The messaging tables, whose
  reference to the product is set to NULL, are not part of this state.) For a client the
  \<^verbatim>\<open>FOR SELECT\<close> policy applies with the \<^verbatim>\<open>FOR DELETE\<close> policy.
\<close>

definition delete_from_products :: "db \<Rightarrow> actor \<Rightarrow> uuid \<Rightarrow> violation + db" where
  "delete_from_products d a k =
     (case a of
        TableOwner \<Rightarrow>
          (case find (\<lambda>p. p_id p = k) (products d) of
             None \<Rightarrow> Inl RowFiltered
           | Some old \<Rightarrow>
               Inr (d\<lparr>products := filter (\<lambda>p. p_id p \<noteq> k) (products d),
                      order_items := filter (\<lambda>i. oi_product_id i \<noteq> k) (order_items d),
                      reviews := filter (\<lambda>r. r_product_id r \<noteq> k) (reviews d)\<rparr>))
      | Authenticated uid \<Rightarrow>
          (case rls_read_user_profiles [Products] d uid of
             Inl e \<Rightarrow> Inl e
           | Inr profiles \<Rightarrow>
               (case find (\<lambda>p. p_id p = k) (products d) of
                  None \<Rightarrow> Inl RowFiltered
                | Some old \<Rightarrow>
                    if \<not> (farmers_can_read_own_products profiles uid old \<and>
                           farmers_can_delete_own_products uid old)
                      then Inl RowFiltered
                    else
                      Inr (d\<lparr>products := filter (\<lambda>p. p_id p \<noteq> k) (products d),
                             order_items := filter (\<lambda>i. oi_product_id i \<noteq> k) (order_items d),
                             reviews := filter (\<lambda>r. r_product_id r \<noteq> k) (reviews d)\<rparr>))))"

text \<open>
  \<^verbatim>\<open>DELETE FROM orders WHERE id = k\<close>. The foreign key of \<^verbatim>\<open>order_items\<close> on the
  order is \<^verbatim>\<open>ON DELETE CASCADE\<close>, that of \<^verbatim>\<open>reviews\<close> is \<^verbatim>\<open>ON DELETE SET NULL\<close>.
  The table has no \<^verbatim>\<open>FOR DELETE\<close> policy, so a client's statement, once the
  \<^verbatim>\<open>FOR SELECT\<close> policies are expanded, sees no row.
\<close>

definition delete_from_orders :: "db \<Rightarrow> actor \<Rightarrow> uuid \<Rightarrow> violation + db" where
  "delete_from_orders d a k =
     (case a of
        TableOwner \<Rightarrow>
          (case find (\<lambda>o'. o_id o' = k) (orders d) of
             None \<Rightarrow> Inl RowFiltered
           | Some old \<Rightarrow>
               Inr (d\<lparr>orders := filter (\<lambda>o'. o_id o' \<noteq> k) (orders d),
                      order_items := filter (\<lambda>i. oi_order_id i \<noteq> k) (order_items d),
                      reviews := map (\<lambda>r. if r_order_id r = Some k
                                            then r\<lparr>r_order_id := None\<rparr> else r) (reviews d)\<rparr>))
      | Authenticated uid \<Rightarrow>
          (case rls_read_user_profiles [Orders] d uid of
             Inl e \<Rightarrow> Inl e
           | Inr profiles \<Rightarrow> Inl RowFiltered))"

section \<open>Writes on the product, order and review tables\<close>

text \<open>Every single-row write on the four tables, by the table owner or by a client.\<close>

datatype write_stmt =
    ProductInsert products_row
  | ProductUpdate products_row
  | ProductDelete uuid
  | OrderInsert orders_row
  | OrderUpdate orders_row
  | OrderDelete uuid
  | OrderItemInsert order_items_row
  | OrderItemUpdate order_items_row
  | OrderItemDelete uuid
  | ReviewInsert reviews_row
  | ReviewUpdate reviews_row
  | ReviewDelete uuid

fun apply_write :: "db \<Rightarrow> actor \<Rightarrow> write_stmt \<Rightarrow> violation + db" where
  "apply_write d a (ProductInsert new) = insert_into_products d a new"
| "apply_write d a (ProductUpdate new) = update_products d a new"
| "apply_write d a (ProductDelete k) = delete_from_products d a k"
| "apply_write d a (OrderInsert new) = insert_into_orders d a new"
| "apply_write d a (OrderUpdate new) = update_orders d a new"
| "apply_write d a (OrderDelete k) = delete_from_orders d a k"
| "apply_write d a (OrderItemInsert new) = insert_into_order_items d a new"
| "apply_write d a (OrderItemUpdate new) = update_order_items d a new"
| "apply_write d a (OrderItemDelete k) = delete_from_order_items d a k"
| "apply_write d a (ReviewInsert new) = insert_into_reviews d a new"
| "apply_write d a (ReviewUpdate new) = update_reviews d a new"
| "apply_write d a (ReviewDelete k) = delete_from_reviews d a k"

text \<open>The range and enumeration checks, on the row a write proposes and on a state.\<close>

fun write_row_checks :: "write_stmt \<Rightarrow> bool" where
  "write_row_checks (ProductInsert new) = products_check new"
| "write_row_checks (ProductUpdate new) = products_check new"
| "write_row_checks (OrderInsert new) = orders_check new"
| "write_row_checks (OrderUpdate new) = orders_check new"
| "write_row_checks (OrderItemInsert new) = order_items_check new"
| "write_row_checks (OrderItemUpdate new) = order_items_check new"
| "write_row_checks (ReviewInsert new) = reviews_check new"
| "write_row_checks (ReviewUpdate new) = reviews_check new"
| "write_row_checks (ProductDelete k) = True"
| "write_row_checks (OrderDelete k) = True"
| "write_row_checks (OrderItemDelete k) = True"
| "write_row_checks (ReviewDelete k) = True"

definition db_checks :: "db \<Rightarrow> bool" where
  "db_checks d \<longleftrightarrow>
     list_all products_check (products d) \<and> list_all orders_check (orders d) \<and>
     list_all order_items_check (order_items d) \<and> list_all reviews_check (reviews d)"

section \<open>The order life cycle as the specification words it\<close>

text \<open>
  The specification's transition relation on the status of an order:
  pending, confirmed, shipped, delivered in this order, and cancelled from any of the
  first three; delivered and cancelled have no successor. It is written from the
  specification, to be compared with what \<open>update_orders\<close> accepts.
\<close>

definition order_status_transition_spec :: "sql_text \<Rightarrow> sql_text \<Rightarrow> bool" where
  "order_status_transition_spec s s' \<longleftrightarrow>
     (s, s') \<in> set [(''pending'', ''confirmed''), (''confirmed'', ''shipped''),
                     (''shipped'', ''delivered''), (''pending'', ''cancelled''),
                     (''confirmed'', ''cancelled''), (''shipped'', ''cancelled'')]"

section \<open>A small marketplace\<close>

text \<open>
  Concrete rows and a concrete state, on which the theorems below are instantiated: an
  admin (1), a farmer (2) and a buyer (3); an active product (10) and a withdrawn one (11)
  of the farmer; a delivered order (20) and a pending order (21) of the buyer with the
  farmer; one item of the delivered order, two units of product 10 at 50.00.
\<close>

definition example_profile :: "uuid \<Rightarrow> sql_text \<Rightarrow> user_profiles_row" where
  "example_profile k role =
     \<lparr>up_id = k, up_role = role, up_full_name = ''name'', up_phone = None,
      up_language_preference = Some ''en'', up_state = None, up_district = None,
      up_profile_image_url = None, up_is_active = Some True,
      up_created_at = Some 0, up_updated_at = Some 0\<rparr>"

definition example_product :: "uuid \<Rightarrow> uuid \<Rightarrow> bool \<Rightarrow> products_row" where
  "example_product k farmer active =
     \<lparr>p_id = k, p_farmer_id = farmer, p_category_id = None, p_name = ''ghee'',
      p_description = ''cow ghee'', p_price = 5000, p_unit = ''kg'', p_stock_quantity = 7,
      p_low_stock_threshold = Some 10, p_images = Some ''[]'', p_is_organic = Some False,
      p_is_traditional = Some False, p_processing_method = None, p_shelf_life_days = None,
      p_tags = Some [], p_is_active = Some active,
      p_created_at = Some 0, p_updated_at = Some 0\<rparr>"

definition example_order :: "uuid \<Rightarrow> uuid \<Rightarrow> uuid \<Rightarrow> sql_text \<Rightarrow> orders_row" where
  "example_order k buyer farmer status =
     \<lparr>o_id = k, o_buyer_id = buyer, o_farmer_id = farmer, o_total_amount = 10000,
      o_status = status, o_payment_status = ''pending'', o_delivery_address = ''{}'',
      o_notes = None, o_created_at = Some 0, o_updated_at = Some 0\<rparr>"

definition example_item ::
  "uuid \<Rightarrow> uuid \<Rightarrow> uuid \<Rightarrow> int \<Rightarrow> decimal_10_2 \<Rightarrow> decimal_10_2 \<Rightarrow> order_items_row" where
  "example_item k order_k product_k qty price sub =
     \<lparr>oi_id = k, oi_order_id = order_k, oi_product_id = product_k, oi_quantity = qty,
      oi_unit_price = price, oi_subtotal = sub, oi_created_at = Some 0\<rparr>"

definition example_review :: "uuid \<Rightarrow> uuid \<Rightarrow> uuid \<Rightarrow> uuid option \<Rightarrow> int \<Rightarrow> reviews_row" where
  "example_review k product_k buyer order_k rating =
     \<lparr>r_id = k, r_product_id = product_k, r_buyer_id = buyer, r_order_id = order_k,
      r_rating = rating, r_comment = None, r_is_verified_purchase = Some False,
      r_created_at = Some 0, r_updated_at = Some 0\<rparr>"

definition example_db :: db where
  "example_db =
     \<lparr>user_profiles = [example_profile 1 ''admin'', example_profile 2 ''farmer'',
                       example_profile 3 ''buyer''],
      product_categories = [],
      products = [example_product 10 2 True, example_product 11 2 False],
      orders = [example_order 20 3 2 ''delivered'', example_order 21 3 2 ''pending''],
      order_items = [example_item 30 20 10 2 5000 10000],
      reviews = []\<rparr>"

text \<open>The same state with a review of product 10 by the buyer 3, for the order 20.\<close>

definition example_db_reviewed :: db where
  "example_db_reviewed = example_db\<lparr>reviews := [example_review 40 10 3 (Some 20) 5]\<rparr>"

section \<open>Auxiliary facts\<close>

text \<open>
  Expanding the policies of \<^verbatim>\<open>user_profiles\<close> always ends in the abort: the table's
  own \<^verbatim>\<open>FOR SELECT\<close> policy reads it again. The same holds of every table whose
  policies read \<^verbatim>\<open>user_profiles\<close>, directly or through \<^verbatim>\<open>orders\<close>, and so of every
  statement of a client that needs one of these policies.
\<close>

lemma rls_read_user_profiles_aborts:
  "rls_read_user_profiles activeRIRs d uid = Inl InfiniteRecursion"
proof (cases "UserProfiles \<in> set activeRIRs")
  case True
  then show ?thesis by (simp add: rls_read_user_profiles.simps)
next
  case False
  have "rls_read_user_profiles (UserProfiles # activeRIRs) d uid = Inl InfiniteRecursion"
    by (simp add: rls_read_user_profiles.simps [of "UserProfiles # activeRIRs"])
  with False show ?thesis
    by (simp add: rls_read_user_profiles.simps [of activeRIRs])
qed

lemma rls_read_products_aborts: "rls_read_products activeRIRs d uid = Inl InfiniteRecursion"
  by (simp add: rls_read_products_def rls_read_user_profiles_aborts)

lemma rls_read_orders_aborts: "rls_read_orders activeRIRs d uid = Inl InfiniteRecursion"
  by (simp add: rls_read_orders_def rls_read_user_profiles_aborts)

lemma rls_read_order_items_aborts:
  "rls_read_order_items activeRIRs d uid = Inl InfiniteRecursion"
  by (simp add: rls_read_order_items_def rls_read_orders_aborts)

lemmas rls_aborts =
  rls_read_user_profiles_aborts rls_read_products_aborts rls_read_orders_aborts
  rls_read_order_items_aborts

lemma client_reads_abort:
  "select_from_user_profiles d (Authenticated uid) = Inl InfiniteRecursion"
  "select_from_products d (Authenticated uid) = Inl InfiniteRecursion"
  "select_from_orders d (Authenticated uid) = Inl InfiniteRecursion"
  "select_from_order_items d (Authenticated uid) = Inl InfiniteRecursion"
  by (simp_all add: select_from_user_profiles_def select_from_products_def
      select_from_orders_def select_from_order_items_def rls_aborts)

lemma client_writes_abort:
  "update_user_profiles d (Authenticated uid) u = Inl InfiniteRecursion"
  "insert_into_products d (Authenticated uid) p = Inl InfiniteRecursion"
  "update_products d (Authenticated uid) p = Inl InfiniteRecursion"
  "delete_from_products d (Authenticated uid) k = Inl InfiniteRecursion"
  "insert_into_orders d (Authenticated uid) o' = Inl InfiniteRecursion"
  "update_orders d (Authenticated uid) o' = Inl InfiniteRecursion"
  "delete_from_orders d (Authenticated uid) k = Inl InfiniteRecursion"
  "insert_into_order_items d (Authenticated uid) i = Inl InfiniteRecursion"
  "update_order_items d (Authenticated uid) i = Inl InfiniteRecursion"
  "delete_from_order_items d (Authenticated uid) k = Inl InfiniteRecursion"
  "insert_into_reviews d (Authenticated uid) r = Inl InfiniteRecursion"
  by (simp_all add: update_user_profiles_def insert_into_products_def update_products_def
      delete_from_products_def insert_into_orders_def update_orders_def delete_from_orders_def
      insert_into_order_items_def update_order_items_def delete_from_order_items_def
      insert_into_reviews_def rls_aborts)

lemma example_db_tables:
  "user_profiles example_db = [example_profile 1 ''admin'', example_profile 2 ''farmer'',
                              example_profile 3 ''buyer'']"
  "product_categories example_db = []"
  "products example_db = [example_product 10 2 True, example_product 11 2 False]"
  "orders example_db = [example_order 20 3 2 ''delivered'', example_order 21 3 2 ''pending'']"
  "order_items example_db = [example_item 30 20 10 2 5000 10000]"
  "reviews example_db = []"
  by (simp_all add: example_db_def)

lemmas example_rows =
  example_profile_def example_product_def example_order_def example_item_def
  example_review_def

lemma owner_first_review:
  "ord \<in> {None, Some 20, Some 21} \<Longrightarrow>
   insert_into_reviews example_db TableOwner (example_review 40 10 3 ord 5)
   = Inr (example_db\<lparr>reviews := [example_review 40 10 3 ord 5]\<rparr>)"
  by (auto simp: insert_into_reviews_def insert_reviews_row_def reviews_types_ok_def int4_ok_def
      reviews_check_def reviews_fk_def example_db_tables example_rows)

lemma find_stored: "x \<in> set xs \<Longrightarrow> \<exists>y. find (\<lambda>u. f u = f x) xs = Some y"
  by (cases "find (\<lambda>u. f u = f x) xs") (auto simp: find_None_iff)

lemma list_all_replace:
  "list_all P xs \<Longrightarrow> P new \<Longrightarrow> list_all P (map (\<lambda>x. if c x then new else x) xs)"
  by (induction xs) simp_all

lemma list_all_filter_keep:
  "list_all P xs \<Longrightarrow> list_all P (filter Q xs)"
  by (induction xs) simp_all

lemma list_all_reviews_unlink:
  "list_all reviews_check rs \<Longrightarrow>
   list_all reviews_check (map (\<lambda>r. if c r then r\<lparr>r_order_id := None\<rparr> else r) rs)"
  by (induction rs) (simp_all add: reviews_check_def)

lemma insert_products_row_checks:
  "insert_products_row d new = Inr d' \<Longrightarrow>
   products_check new \<and> (db_checks d \<longrightarrow> db_checks d')"
  by (auto simp: insert_products_row_def db_checks_def split: if_splits)

lemma replace_products_row_checks:
  "replace_products_row d new = Inr d' \<Longrightarrow>
   products_check new \<and> (db_checks d \<longrightarrow> db_checks d')"
  by (auto simp: replace_products_row_def db_checks_def list_all_replace split: if_splits)

lemma insert_orders_row_checks:
  "insert_orders_row d new = Inr d' \<Longrightarrow>
   orders_check new \<and> (db_checks d \<longrightarrow> db_checks d')"
  by (auto simp: insert_orders_row_def db_checks_def split: if_splits)

lemma replace_orders_row_checks:
  "replace_orders_row d new = Inr d' \<Longrightarrow>
   orders_check new \<and> (db_checks d \<longrightarrow> db_checks d')"
  by (auto simp: replace_orders_row_def db_checks_def list_all_replace split: if_splits)

lemma insert_order_items_row_checks:
  "insert_order_items_row d new = Inr d' \<Longrightarrow>
   order_items_check new \<and> (db_checks d \<longrightarrow> db_checks d')"
  by (auto simp: insert_order_items_row_def db_checks_def split: if_splits)

lemma replace_order_items_row_checks:
  "replace_order_items_row d new = Inr d' \<Longrightarrow>
   order_items_check new \<and> (db_checks d \<longrightarrow> db_checks d')"
  by (auto simp: replace_order_items_row_def db_checks_def list_all_replace split: if_splits)

lemma insert_reviews_row_checks:
  "insert_reviews_row d new = Inr d' \<Longrightarrow>
   reviews_check new \<and> (db_checks d \<longrightarrow> db_checks d')"
  by (auto simp: insert_reviews_row_def db_checks_def split: if_splits)

lemma replace_reviews_row_checks:
  "replace_reviews_row d new = Inr d' \<Longrightarrow>
   reviews_check new \<and> (db_checks d \<longrightarrow> db_checks d')"
  by (auto simp: replace_reviews_row_def db_checks_def list_all_replace split: if_splits)

lemma insert_into_products_checks:
  assumes "insert_into_products d a new = Inr d'"
  shows "products_check new \<and> (db_checks d \<longrightarrow> db_checks d')"
proof (cases a)
  case TableOwner
  with assms show ?thesis
    by (auto simp: insert_into_products_def dest: insert_products_row_checks split: if_splits)
next
  case (Authenticated uid)
  with assms show ?thesis by (simp add: client_writes_abort)
qed

lemma update_products_checks:
  assumes "update_products d a new = Inr d'"
  shows "products_check new \<and> (db_checks d \<longrightarrow> db_checks d')"
proof (cases a)
  case TableOwner
  with assms show ?thesis
    by (auto simp: update_products_def dest: replace_products_row_checks split: option.splits if_splits)
next
  case (Authenticated uid)
  with assms show ?thesis by (simp add: client_writes_abort)
qed

lemma delete_from_products_checks:
  assumes "delete_from_products d a k = Inr d'"
  shows "db_checks d \<longrightarrow> db_checks d'"
proof (cases a)
  case TableOwner
  with assms show ?thesis
    by (auto simp: delete_from_products_def db_checks_def list_all_filter_keep split: option.splits)
next
  case (Authenticated uid)
  with assms show ?thesis by (simp add: client_writes_abort)
qed

lemma insert_into_orders_checks:
  assumes "insert_into_orders d a new = Inr d'"
  shows "orders_check new \<and> (db_checks d \<longrightarrow> db_checks d')"
proof (cases a)
  case TableOwner
  with assms show ?thesis
    by (auto simp: insert_into_orders_def dest: insert_orders_row_checks split: if_splits)
next
  case (Authenticated uid)
  with assms show ?thesis by (simp add: client_writes_abort)
qed

lemma update_orders_checks:
  assumes "update_orders d a new = Inr d'"
  shows "orders_check new \<and> (db_checks d \<longrightarrow> db_checks d')"
proof (cases a)
  case TableOwner
  with assms show ?thesis
    by (auto simp: update_orders_def dest: replace_orders_row_checks split: option.splits if_splits)
next
  case (Authenticated uid)
  with assms show ?thesis by (simp add: client_writes_abort)
qed

lemma delete_from_orders_checks:
  assumes "delete_from_orders d a k = Inr d'"
  shows "db_checks d \<longrightarrow> db_checks d'"
proof (cases a)
  case TableOwner
  with assms show ?thesis
    by (auto simp: delete_from_orders_def db_checks_def list_all_filter_keep list_all_reviews_unlink split: option.splits)
next
  case (Authenticated uid)
  with assms show ?thesis by (simp add: client_writes_abort)
qed

lemma insert_into_order_items_checks:
  assumes "insert_into_order_items d a new = Inr d'"
  shows "order_items_check new \<and> (db_checks d \<longrightarrow> db_checks d')"
proof (cases a)
  case TableOwner
  with assms show ?thesis
    by (auto simp: insert_into_order_items_def dest: insert_order_items_row_checks split: if_splits)
next
  case (Authenticated uid)
  with assms show ?thesis by (simp add: client_writes_abort)
qed

lemma update_order_items_checks:
  assumes "update_order_items d a new = Inr d'"
  shows "order_items_check new \<and> (db_checks d \<longrightarrow> db_checks d')"
proof (cases a)
  case TableOwner
  with assms show ?thesis
    by (auto simp: update_order_items_def dest: replace_order_items_row_checks split: option.splits if_splits)
next
  case (Authenticated uid)
  with assms show ?thesis by (simp add: client_writes_abort)
qed

lemma delete_from_order_items_checks:
  assumes "delete_from_order_items d a k = Inr d'"
  shows "db_checks d \<longrightarrow> db_checks d'"
proof (cases a)
  case TableOwner
  with assms show ?thesis
    by (auto simp: delete_from_order_items_def db_checks_def list_all_filter_keep split: option.splits)
next
  case (Authenticated uid)
  with assms show ?thesis by (simp add: client_writes_abort)
qed

lemma insert_into_reviews_checks:
  assumes "insert_into_reviews d a new = Inr d'"
  shows "reviews_check new \<and> (db_checks d \<longrightarrow> db_checks d')"
proof (cases a)
  case TableOwner
  with assms show ?thesis
    by (auto simp: insert_into_reviews_def dest: insert_reviews_row_checks split: if_splits)
next
  case (Authenticated uid)
  with assms show ?thesis by (simp add: client_writes_abort)
qed

lemma update_reviews_checks:
  "update_reviews d a new = Inr d' \<Longrightarrow>
   reviews_check new \<and> (db_checks d \<longrightarrow> db_checks d')"
  by (cases a)
    (auto simp: update_reviews_def dest: replace_reviews_row_checks
      split: option.splits if_splits)

lemma delete_from_reviews_checks:
  "delete_from_reviews d a k = Inr d' \<Longrightarrow> db_checks d \<longrightarrow> db_checks d'"
  by (cases a)
    (auto simp: delete_from_reviews_def db_checks_def list_all_filter_keep
      split: option.splits)

lemma example_db_reviewed_tables:
  "user_profiles example_db_reviewed = user_profiles example_db"
  "products example_db_reviewed = products example_db"
  "orders example_db_reviewed = orders example_db"
  "order_items example_db_reviewed = order_items example_db"
  "reviews example_db_reviewed = [example_review 40 10 3 (Some 20) 5]"
  by (simp_all add: example_db_reviewed_def)

lemma example_db_reviewed_checks: "db_checks example_db_reviewed"
  by (simp add: db_checks_def products_check_def orders_check_def order_items_check_def
      reviews_check_def order_statuses_def payment_statuses_def example_db_reviewed_tables
      example_db_tables example_rows)

lemma author_updates_review:
  "1 \<le> n \<Longrightarrow> n \<le> 5 \<Longrightarrow>
   update_reviews example_db_reviewed (Authenticated 3) (example_review 40 10 3 (Some 20) n)
   = Inr (example_db_reviewed\<lparr>reviews := [example_review 40 10 3 (Some 20) n]\<rparr>)"
  by (simp add: update_reviews_def replace_reviews_row_def anyone_can_read_reviews_def
      buyers_can_update_own_reviews_using_def buyers_can_update_own_reviews_check_def
      reviews_types_ok_def int4_ok_def reviews_check_def reviews_fk_def
      example_db_reviewed_tables example_db_tables example_rows)

lemma example_order_valid:
  "s \<in> set order_statuses \<Longrightarrow>
   orders_types_ok (example_order k 3 2 s) \<and> orders_check (example_order k 3 2 s) \<and>
   orders_fk example_db (example_order k 3 2 s)"
  by (simp add: orders_types_ok_def numeric_10_2_ok_def orders_check_def payment_statuses_def
      orders_fk_def example_db_tables example_rows)

lemma owner_places_order:
  "insert_into_orders example_db TableOwner (example_order 22 3 2 ''pending'')
     = Inr (example_db\<lparr>orders := orders example_db @ [example_order 22 3 2 ''pending'']\<rparr>)"
  by (simp add: insert_into_orders_def insert_orders_row_def orders_types_ok_def
      numeric_10_2_ok_def orders_check_def order_statuses_def payment_statuses_def
      orders_fk_def example_db_tables example_rows)

lemma owner_adds_item:
  "0 < q \<Longrightarrow> q < 100 \<Longrightarrow> 0 \<le> sub \<Longrightarrow> sub < 100000 \<Longrightarrow>
   insert_into_order_items
     (example_db\<lparr>orders := orders example_db @ [example_order 22 3 2 ''pending'']\<rparr>)
     TableOwner (example_item 31 22 10 q 5000 sub)
   = Inr (example_db\<lparr>orders := orders example_db @ [example_order 22 3 2 ''pending''],
                     order_items := order_items example_db @ [example_item 31 22 10 q 5000 sub]\<rparr>)"
  by (simp add: insert_into_order_items_def insert_order_items_row_def
      order_items_types_ok_def numeric_10_2_ok_def int4_ok_def order_items_check_def
      order_items_fk_def example_db_tables example_rows)

section \<open>Accounts\<close>

text \<open>
  C1. An update of a stored account that its owner issues as a client and that proposes
  another role than the stored one is denied: the statement is aborted while the policies
  of \<^verbatim>\<open>user_profiles\<close> are expanded, and the state is left as it was.
\<close>

theorem account_role_change_denied:
  assumes "old \<in> set (user_profiles d)" and "up_id old = uid"
    and "up_id new = up_id old" and "up_role new \<noteq> up_role old"
  shows "update_user_profiles d (Authenticated uid) new = Inl InfiniteRecursion"
  by (simp add: update_user_profiles_def rls_read_user_profiles_aborts)

text \<open>On the example state: the buyer 3 tries to make itself an admin.\<close>

theorem account_role_change_denied_witness:
  "example_profile 3 ''buyer'' \<in> set (user_profiles example_db) \<and>
   up_role (example_profile 3 ''admin'') \<noteq> up_role (example_profile 3 ''buyer'') \<and>
   update_user_profiles example_db (Authenticated 3) (example_profile 3 ''admin'')
     = Inl InfiniteRecursion"
proof -
  have stored: "example_profile 3 ''buyer'' \<in> set (user_profiles example_db)"
    by (simp add: example_db_tables)
  have owner: "up_id (example_profile 3 ''buyer'') = 3"
    and key: "up_id (example_profile 3 ''admin'') = up_id (example_profile 3 ''buyer'')"
    and role: "up_role (example_profile 3 ''admin'') \<noteq> up_role (example_profile 3 ''buyer'')"
    by (simp_all add: example_rows)
  from account_role_change_denied [OF stored owner key role] stored role
  show ?thesis by simp
qed

text \<open>
  C7 at a concrete state. The admin 1 and the buyer 3 read the account table, which holds
  three rows: both reads are aborted, so the admin does not receive all rows and the
  buyer does not receive its own.
\<close>

theorem account_read_aborts:
  "select_from_user_profiles example_db (Authenticated 1) = Inl InfiniteRecursion \<and>
   select_from_user_profiles example_db (Authenticated 3) = Inl InfiniteRecursion \<and>
   user_profiles example_db = [example_profile 1 ''admin'', example_profile 2 ''farmer'',
                               example_profile 3 ''buyer'']"
  by (simp add: client_reads_abort example_db_tables)

section \<open>Products\<close>

text \<open>
  C4 at a concrete state. The farmer 2 owns the withdrawn product 11. Its read of the
  product table and the read of the admin 1 are aborted, and the product list of the
  farmer's dashboard stays empty: the withdrawn product is not among the rows they
  receive. The listing that the buyer 3 loads is empty as well.
\<close>

theorem product_read_by_owner_and_admin_aborts:
  "select_from_products example_db (Authenticated 2) = Inl InfiniteRecursion \<and>
   select_from_products example_db (Authenticated 1) = Inl InfiniteRecursion \<and>
   loadData_products example_db 2 = [] \<and>
   loadProducts example_db 3 = [] \<and>
   products example_db = [example_product 10 2 True, example_product 11 2 False] \<and>
   p_farmer_id (example_product 11 2 False) = 2 \<and>
   p_is_active (example_product 11 2 False) = Some False"
  by (simp add: client_reads_abort loadData_products_def loadProducts_def example_db_tables
      example_rows)

section \<open>Reviews\<close>

text \<open>
  C2 at a concrete state. The buyer 3 is the proposed \<^verbatim>\<open>buyer_id\<close>, its account has
  the role buyer, and item 30 of its delivered order 20 is for the reviewed product 10;
  yet its insert of the review is aborted.
\<close>

theorem review_insert_by_buyer_aborts:
  "insert_into_reviews example_db (Authenticated 3) (example_review 40 10 3 (Some 20) 5)
     = Inl InfiniteRecursion \<and>
   r_buyer_id (example_review 40 10 3 (Some 20) 5) = 3 \<and>
   user_profiles example_db = [example_profile 1 ''admin'', example_profile 2 ''farmer'',
                               example_profile 3 ''buyer''] \<and>
   order_items example_db = [example_item 30 20 10 2 5000 10000] \<and>
   orders example_db = [example_order 20 3 2 ''delivered'', example_order 21 3 2 ''pending'']"
  by (simp add: client_writes_abort example_db_tables example_rows)

text \<open>
  C5 at a concrete state. The first review of product 10 by the buyer 3 for the order 20
  is aborted when the buyer inserts it. Once the table owner has stored it, a second
  insert on the same product, buyer and order is aborted when the buyer issues it and is a
  uniqueness violation when the table owner does; a review of the same product by the
  same buyer for the other order 21 is stored.
\<close>

theorem review_duplicate_by_buyer_aborts:
  "insert_into_reviews example_db (Authenticated 3) (example_review 40 10 3 (Some 20) 5)
     = Inl InfiniteRecursion \<and>
   insert_into_reviews example_db_reviewed (Authenticated 3) (example_review 41 10 3 (Some 20) 4)
     = Inl InfiniteRecursion \<and>
   insert_into_reviews example_db TableOwner (example_review 40 10 3 (Some 20) 5)
     = Inr example_db_reviewed \<and>
   insert_into_reviews example_db_reviewed TableOwner (example_review 41 10 3 (Some 20) 4)
     = Inl UniqueViolation \<and>
   insert_into_reviews example_db_reviewed TableOwner (example_review 41 10 3 (Some 21) 4)
     = Inr (example_db\<lparr>reviews := [example_review 40 10 3 (Some 20) 5,
                                     example_review 41 10 3 (Some 21) 4]\<rparr>)"
  by (simp add: client_writes_abort owner_first_review example_db_reviewed_def)
    (simp add: insert_into_reviews_def insert_reviews_row_def reviews_types_ok_def int4_ok_def
      reviews_check_def reviews_unique_conflict_def reviews_fk_def example_db_tables
      example_rows)

text \<open>
  C9 at a concrete state. The buyer 3 has product 10 in its delivered order 20; its
  insert of a review of product 10 is aborted when the review names no order and when it
  names the pending order 21.
\<close>

theorem review_insert_without_order_aborts:
  "insert_into_reviews example_db (Authenticated 3) (example_review 40 10 3 None 5)
     = Inl InfiniteRecursion \<and>
   insert_into_reviews example_db (Authenticated 3) (example_review 40 10 3 (Some 21) 5)
     = Inl InfiniteRecursion"
  by (simp add: client_writes_abort)

text \<open>
  C10 at a concrete state. Two reviews of product 10 by the buyer 3 that name no order:
  inserted by the buyer, the first is aborted, and so is the second after the first has
  been stored; inserted by the table owner, both are stored.
\<close>

theorem second_review_without_order_aborts:
  "insert_into_reviews example_db (Authenticated 3) (example_review 40 10 3 None 5)
     = Inl InfiniteRecursion \<and>
   insert_into_reviews (example_db\<lparr>reviews := [example_review 40 10 3 None 5]\<rparr>)
     (Authenticated 3) (example_review 41 10 3 None 5) = Inl InfiniteRecursion \<and>
   insert_into_reviews example_db TableOwner (example_review 40 10 3 None 5)
     = Inr (example_db\<lparr>reviews := [example_review 40 10 3 None 5]\<rparr>) \<and>
   insert_into_reviews (example_db\<lparr>reviews := [example_review 40 10 3 None 5]\<rparr>)
     TableOwner (example_review 41 10 3 None 5)
     = Inr (example_db\<lparr>reviews := [example_review 40 10 3 None 5,
                                     example_review 41 10 3 None 5]\<rparr>)"
  by (simp add: client_writes_abort owner_first_review)
    (simp add: insert_into_reviews_def insert_reviews_row_def reviews_types_ok_def int4_ok_def
      reviews_check_def reviews_unique_conflict_def reviews_fk_def example_db_tables
      example_rows)

section \<open>Orders\<close>

text \<open>
  C3, as the store has it. An accepted update of an order proposes a status of the closed
  enumeration, whoever issues it. The stored status is not consulted: an update that is
  not subject to the row policies, issued by the table owner, may set the status of a
  stored order to any of the five values, whatever the status was, so no order of the
  statuses is imposed and delivered and cancelled are not terminal.
\<close>

theorem order_status_unordered:
  "(update_orders d a new = Inr d' \<longrightarrow> o_status new \<in> set order_statuses) \<and>
   (old \<in> set (orders d) \<and> orders_types_ok old \<and> orders_check old \<and> orders_fk d old \<and>
    s \<in> set order_statuses
    \<longrightarrow> update_orders d TableOwner (old\<lparr>o_status := s\<rparr>)
        = Inr (d\<lparr>orders := map (\<lambda>o'. if o_id o' = o_id old then old\<lparr>o_status := s\<rparr> else o')
                                (orders d)\<rparr>))"
proof (intro conjI impI)
  assume "update_orders d a new = Inr d'"
  from update_orders_checks [OF this] show "o_status new \<in> set order_statuses"
    by (simp add: orders_check_def)
next
  assume h: "old \<in> set (orders d) \<and> orders_types_ok old \<and> orders_check old \<and>
             orders_fk d old \<and> s \<in> set order_statuses"
  then obtain y where target: "find (\<lambda>o'. o_id o' = o_id old) (orders d) = Some y"
    using find_stored [of old "orders d" o_id] by blast
  have "orders_types_ok (old\<lparr>o_status := s\<rparr>)" "orders_check (old\<lparr>o_status := s\<rparr>)"
    "orders_fk d (old\<lparr>o_status := s\<rparr>)"
    using h by (simp_all add: orders_types_ok_def orders_check_def orders_fk_def)
  then show "update_orders d TableOwner (old\<lparr>o_status := s\<rparr>)
        = Inr (d\<lparr>orders := map (\<lambda>o'. if o_id o' = o_id old then old\<lparr>o_status := s\<rparr> else o')
                                (orders d)\<rparr>)"
    by (simp add: update_orders_def replace_orders_row_def target)
qed

text \<open>On the example state: the pending order 21 is set to shipped.\<close>

theorem order_status_unordered_witness:
  "update_orders example_db TableOwner (example_order 21 3 2 ''shipped'')
     = Inr (example_db\<lparr>orders := [example_order 20 3 2 ''delivered'',
                                    example_order 21 3 2 ''shipped'']\<rparr>) \<and>
   o_status (example_order 21 3 2 ''shipped'') \<in> set order_statuses"
proof -
  have h: "example_order 21 3 2 ''pending'' \<in> set (orders example_db) \<and>
    orders_types_ok (example_order 21 3 2 ''pending'') \<and>
    orders_check (example_order 21 3 2 ''pending'') \<and>
    orders_fk example_db (example_order 21 3 2 ''pending'') \<and>
    ''shipped'' \<in> set order_statuses"
    using example_order_valid [of "''pending''" 21]
    by (simp add: order_statuses_def example_db_tables)
  have upd: "(example_order 21 3 2 ''pending'')\<lparr>o_status := ''shipped''\<rparr>
             = example_order 21 3 2 ''shipped''"
    by (simp add: example_rows)
  have step: "update_orders example_db TableOwner (example_order 21 3 2 ''shipped'')
     = Inr (example_db\<lparr>orders := [example_order 20 3 2 ''delivered'',
                                    example_order 21 3 2 ''shipped'']\<rparr>)"
    using order_status_unordered
      [of example_db TableOwner "example_order 21 3 2 ''shipped''" example_db
        "example_order 21 3 2 ''pending''" "''shipped''"] h
    by (simp add: upd) (simp add: example_db_tables example_rows)
  show ?thesis
    using order_status_unordered
      [of example_db TableOwner "example_order 21 3 2 ''shipped''"
        "example_db\<lparr>orders := [example_order 20 3 2 ''delivered'',
                                 example_order 21 3 2 ''shipped'']\<rparr>"
        "example_order 21 3 2 ''pending''" "''shipped''"] step
    by simp
qed

text \<open>
  C3, as the claim states it, fails: the delivered order 20 is set back to pending and the
  update is accepted, although the specification's transition relation has no step from
  delivered.
\<close>

theorem order_update_leaves_delivered:
  "update_orders example_db TableOwner (example_order 20 3 2 ''pending'')
     = Inr (example_db\<lparr>orders := [example_order 20 3 2 ''pending'',
                                    example_order 21 3 2 ''pending'']\<rparr>) \<and>
   orders example_db = [example_order 20 3 2 ''delivered'', example_order 21 3 2 ''pending''] \<and>
   \<not> order_status_transition_spec ''delivered'' ''pending''"
  by (simp add: update_orders_def replace_orders_row_def orders_types_ok_def
      numeric_10_2_ok_def orders_check_def order_statuses_def payment_statuses_def
      orders_fk_def order_status_transition_spec_def example_db_tables example_rows)

text \<open>
  C6, as the store has it. An accepted insert or update of an order item has a positive
  quantity, a non-negative unit price and a non-negative subtotal, and an accepted insert
  or update of an order has a non-negative total amount, whoever issues it. Nothing
  relates the subtotal to the quantity and the unit price, or the total amount to the
  subtotals.
\<close>

theorem order_amounts_only_range_checked:
  "(insert_into_order_items d a i = Inr d1
    \<longrightarrow> 0 < oi_quantity i \<and> 0 \<le> oi_unit_price i \<and> 0 \<le> oi_subtotal i) \<and>
   (update_order_items d a i = Inr d2
    \<longrightarrow> 0 < oi_quantity i \<and> 0 \<le> oi_unit_price i \<and> 0 \<le> oi_subtotal i) \<and>
   (insert_into_orders d a new = Inr d3 \<longrightarrow> 0 \<le> o_total_amount new) \<and>
   (update_orders d a new = Inr d4 \<longrightarrow> 0 \<le> o_total_amount new)"
proof (intro conjI impI)
  assume "insert_into_order_items d a i = Inr d1"
  from insert_into_order_items_checks [OF this]
  show "0 < oi_quantity i" and "0 \<le> oi_unit_price i" and "0 \<le> oi_subtotal i"
    by (simp_all add: order_items_check_def)
next
  assume "update_order_items d a i = Inr d2"
  from update_order_items_checks [OF this]
  show "0 < oi_quantity i" and "0 \<le> oi_unit_price i" and "0 \<le> oi_subtotal i"
    by (simp_all add: order_items_check_def)
next
  assume "insert_into_orders d a new = Inr d3"
  from insert_into_orders_checks [OF this] show "0 \<le> o_total_amount new"
    by (simp add: orders_check_def)
next
  assume "update_orders d a new = Inr d4"
  from update_orders_checks [OF this] show "0 \<le> o_total_amount new"
    by (simp add: orders_check_def)
qed

text \<open>
  On the example state: the table owner stores order 22 of the buyer 3 with one item, two
  units at 50.00 with the subtotal 100.00.
\<close>

theorem order_amounts_only_range_checked_witness:
  "insert_into_orders example_db TableOwner (example_order 22 3 2 ''pending'')
     = Inr (example_db\<lparr>orders := orders example_db @ [example_order 22 3 2 ''pending'']\<rparr>) \<and>
   insert_into_order_items
     (example_db\<lparr>orders := orders example_db @ [example_order 22 3 2 ''pending'']\<rparr>)
     TableOwner (example_item 31 22 10 2 5000 10000)
     = Inr (example_db\<lparr>orders := orders example_db @ [example_order 22 3 2 ''pending''],
              order_items := order_items example_db @ [example_item 31 22 10 2 5000 10000]\<rparr>) \<and>
   0 < oi_quantity (example_item 31 22 10 2 5000 10000) \<and>
   0 \<le> oi_unit_price (example_item 31 22 10 2 5000 10000) \<and>
   0 \<le> oi_subtotal (example_item 31 22 10 2 5000 10000) \<and>
   0 \<le> o_total_amount (example_order 22 3 2 ''pending'')"
proof -
  have item: "insert_into_order_items
     (example_db\<lparr>orders := orders example_db @ [example_order 22 3 2 ''pending'']\<rparr>)
     TableOwner (example_item 31 22 10 2 5000 10000)
     = Inr (example_db\<lparr>orders := orders example_db @ [example_order 22 3 2 ''pending''],
              order_items := order_items example_db @ [example_item 31 22 10 2 5000 10000]\<rparr>)"
    by (rule owner_adds_item) simp_all
  show ?thesis
    using order_amounts_only_range_checked
      [of "example_db\<lparr>orders := orders example_db @ [example_order 22 3 2 ''pending'']\<rparr>"
        TableOwner "example_item 31 22 10 2 5000 10000"
        "example_db\<lparr>orders := orders example_db @ [example_order 22 3 2 ''pending''],
              order_items := order_items example_db @ [example_item 31 22 10 2 5000 10000]\<rparr>"]
      order_amounts_only_range_checked
      [of example_db TableOwner _ _ _ "example_order 22 3 2 ''pending''"
        "example_db\<lparr>orders := orders example_db @ [example_order 22 3 2 ''pending'']\<rparr>"]
      item owner_places_order
    by simp
qed

text \<open>
  C6, as the claim states it, fails: for the same order the item of two units at 50.00 is
  accepted with the subtotal 7.00, which is not the quantity times the unit price; nor
  does the order's total amount (100.00) equal the subtotal of its only item.
\<close>

theorem order_item_subtotal_not_enforced:
  "insert_into_order_items
     (example_db\<lparr>orders := orders example_db @ [example_order 22 3 2 ''pending'']\<rparr>)
     TableOwner (example_item 31 22 10 2 5000 700)
     = Inr (example_db\<lparr>orders := orders example_db @ [example_order 22 3 2 ''pending''],
              order_items := order_items example_db @ [example_item 31 22 10 2 5000 700]\<rparr>) \<and>
   oi_subtotal (example_item 31 22 10 2 5000 700)
     \<noteq> oi_quantity (example_item 31 22 10 2 5000 700)
       * oi_unit_price (example_item 31 22 10 2 5000 700) \<and>
   o_total_amount (example_order 22 3 2 ''pending'')
     \<noteq> oi_subtotal (example_item 31 22 10 2 5000 700)"
  by (simp add: owner_adds_item) (simp add: example_rows)

section \<open>Integrity checks\<close>

text \<open>
  C8. Whoever the actor is, a write that is accepted proposes a row that satisfies the
  checks of its table (price and stock of a product non-negative; total amount of an
  order non-negative, its status and payment status in their enumerations; quantity of an
  order item positive, unit price and subtotal non-negative; rating of a review between 1
  and 5), and if all stored rows satisfied them before the write they all do after it. A
  write whose row violates a check is rejected.
\<close>

theorem integrity_checks_on_every_write:
  "(apply_write d a w = Inr d' \<longrightarrow> write_row_checks w \<and> (db_checks d \<longrightarrow> db_checks d')) \<and>
   (\<not> write_row_checks w \<longrightarrow> (\<exists>e. apply_write d a w = Inl e))"
proof -
  have accepted: "write_row_checks w \<and> (db_checks d \<longrightarrow> db_checks d')"
    if "apply_write d a w = Inr d'" for d'
  proof (cases w)
    case (ProductInsert new)
    with that insert_into_products_checks [of d a new d'] show ?thesis by simp
  next
    case (ProductUpdate new)
    with that update_products_checks [of d a new d'] show ?thesis by simp
  next
    case (ProductDelete k)
    with that delete_from_products_checks [of d a k d'] show ?thesis by simp
  next
    case (OrderInsert new)
    with that insert_into_orders_checks [of d a new d'] show ?thesis by simp
  next
    case (OrderUpdate new)
    with that update_orders_checks [of d a new d'] show ?thesis by simp
  next
    case (OrderDelete k)
    with that delete_from_orders_checks [of d a k d'] show ?thesis by simp
  next
    case (OrderItemInsert new)
    with that insert_into_order_items_checks [of d a new d'] show ?thesis by simp
  next
    case (OrderItemUpdate new)
    with that update_order_items_checks [of d a new d'] show ?thesis by simp
  next
    case (OrderItemDelete k)
    with that delete_from_order_items_checks [of d a k d'] show ?thesis by simp
  next
    case (ReviewInsert new)
    with that insert_into_reviews_checks [of d a new d'] show ?thesis by simp
  next
    case (ReviewUpdate new)
    with that update_reviews_checks [of d a new d'] show ?thesis by simp
  next
    case (ReviewDelete k)
    with that delete_from_reviews_checks [of d a k d'] show ?thesis by simp
  qed
  have "\<exists>e. apply_write d a w = Inl e" if "\<not> write_row_checks w"
  proof (cases "apply_write d a w")
    case (Inl e)
    then show ?thesis by blast
  next
    case (Inr d'')
    with accepted that show ?thesis by blast
  qed
  with accepted show ?thesis by blast
qed

text \<open>
  On the example state with the review 40: its author, the buyer 3, changes the rating to
  4, which is accepted and keeps the checks; the rating 6 is rejected by the check.
\<close>

theorem integrity_checks_on_every_write_witness:
  "apply_write example_db_reviewed (Authenticated 3)
     (ReviewUpdate (example_review 40 10 3 (Some 20) 4))
     = Inr (example_db_reviewed\<lparr>reviews := [example_review 40 10 3 (Some 20) 4]\<rparr>) \<and>
   reviews_check (example_review 40 10 3 (Some 20) 4) \<and>
   db_checks (example_db_reviewed\<lparr>reviews := [example_review 40 10 3 (Some 20) 4]\<rparr>) \<and>
   apply_write example_db_reviewed (Authenticated 3)
     (ReviewUpdate (example_review 40 10 3 (Some 20) 6)) = Inl CheckViolation"
proof -
  let ?d' = "example_db_reviewed\<lparr>reviews := [example_review 40 10 3 (Some 20) 4]\<rparr>"
  have step: "apply_write example_db_reviewed (Authenticated 3)
     (ReviewUpdate (example_review 40 10 3 (Some 20) 4)) = Inr ?d'"
    by (simp add: author_updates_review)
  from integrity_checks_on_every_write
    [of example_db_reviewed "Authenticated 3"
      "ReviewUpdate (example_review 40 10 3 (Some 20) 4)" ?d'] step example_db_reviewed_checks
  have ok: "reviews_check (example_review 40 10 3 (Some 20) 4) \<and> db_checks ?d'"
    by simp
  have bad: "\<not> write_row_checks (ReviewUpdate (example_review 40 10 3 (Some 20) 6))"
    by (simp add: reviews_check_def example_rows)
  have other: "apply_write example_db_reviewed (Authenticated 3)
       (ReviewUpdate (example_review 40 10 3 (Some 20) 6))
       \<notin> {Inl InfiniteRecursion, Inl RowFiltered, Inl PolicyViolation,
           Inl NumericValueOutOfRange, Inl UniqueViolation, Inl ForeignKeyViolation}"
    by (simp add: update_reviews_def replace_reviews_row_def anyone_can_read_reviews_def
        buyers_can_update_own_reviews_using_def buyers_can_update_own_reviews_check_def
        reviews_types_ok_def int4_ok_def reviews_check_def
        example_db_reviewed_tables example_rows)
  from integrity_checks_on_every_write
    [of example_db_reviewed "Authenticated 3"
      "ReviewUpdate (example_review 40 10 3 (Some 20) 6)"] bad
  obtain e where e: "apply_write example_db_reviewed (Authenticated 3)
       (ReviewUpdate (example_review 40 10 3 (Some 20) 6)) = Inl e"
    by blast
  with other have "e = CheckViolation" by (cases e) simp_all
  with e step ok show ?thesis by simp
qed

end
